theory Spec2Isabelle
  imports Main "HOL-Library.Multiset"
begin

section \<open>The tables read and written by \<open>core/views.py\<close>\<close>

text \<open>
  A user is referred to by its primary key. Timestamps are points of a linear order and
  are modelled as integers. The field names are those the views use in their queries;
  \<open>core/models.py\<close> is not among the sources, so a record holds the columns the views
  read or write, plus the body of a message.
\<close>

type_synonym user = int

record friend_request =
  fr_id :: int
  fr_sender :: user
  fr_receiver :: user
  fr_status :: string
  fr_created_at :: int

record friendship =
  user1 :: user
  user2 :: user

record message =
  msg_id :: int
  msg_sender :: user
  msg_receiver :: user
  msg_body :: string
  msg_timestamp :: int

record notification =
  n_id :: int
  n_user :: user
  is_read :: bool
  n_timestamp :: int

record db =
  friend_requests :: "friend_request list"
  friendships :: "friendship list"
  messages :: "message list"
  notifications :: "notification list"

text \<open>
  What a view hands back: a \<open>Response\<close> with its HTTP status and body, or an exception
  that leaves the view. \<open>Http404\<close> is raised by \<open>get_object_or_404\<close>;
  \<open>DatabaseError\<close> stands for the \<open>django.db\<close> error of a refused \<open>INSERT\<close>;
  \<open>OverflowError\<close> is raised when an integer that does not fit 64 bits is bound as a
  query parameter; \<open>InvalidTarget\<close> is the rejection of a create request by the
  validation of its serializer.
\<close>

datatype exc = Http404 | DatabaseError | OverflowError | InvalidTarget

datatype response = Response nat "(string \<times> string) list" | Raised exc

section \<open>Library calls used by the views\<close>

text \<open>\<open>get_object_or_404(Model, **kwargs)\<close>: the row matching the lookup, or \<open>Http404\<close>.\<close>

definition get_object_or_404 :: "('a \<Rightarrow> bool) \<Rightarrow> 'a list \<Rightarrow> exc + 'a" where
  "get_object_or_404 P rows = (case find P rows of None \<Rightarrow> Inl Http404 | Some x \<Rightarrow> Inr x)"

text \<open>
  \<open>instance.save()\<close> on a row that was read from the table: an \<open>UPDATE\<close> of the row with
  that primary key.
\<close>

definition save_friend_request :: "friend_request \<Rightarrow> db \<Rightarrow> db" where
  "save_friend_request fr d =
     d\<lparr>friend_requests := map (\<lambda>r. if fr_id r = fr_id fr then fr else r) (friend_requests d)\<rparr>"

definition save_notification :: "notification \<Rightarrow> db \<Rightarrow> db" where
  "save_notification n d =
     d\<lparr>notifications := map (\<lambda>r. if n_id r = n_id n then n else r) (notifications d)\<rparr>"

text \<open>
  \<open>Friendship.objects.create(user1=a, user2=b)\<close> is an \<open>INSERT\<close>, which the database may
  refuse: because of a constraint declared on the table (the declaration is in
  \<open>core/models.py\<close>) or because of a storage fault. The database's answer is
  a parameter of the model: \<open>accepts row rows\<close> tells whether \<open>row\<close> may be added to a
  table holding \<open>rows\<close>. No view wraps its statements in a transaction, so a statement
  that succeeded stays in the table when a later one fails (Django's autocommit).
\<close>

type_synonym insert_policy = "friendship \<Rightarrow> friendship list \<Rightarrow> bool"

definition Friendship_create :: "insert_policy \<Rightarrow> user \<Rightarrow> user \<Rightarrow> db \<Rightarrow> exc + db" where
  "Friendship_create accepts a b d =
     (let row = \<lparr>user1 = a, user2 = b\<rparr>
      in if accepts row (friendships d)
         then Inr (d\<lparr>friendships := friendships d @ [row]\<rparr>)
         else Inl DatabaseError)"

text \<open>
  Four databases: no constraint, a unique pair \<open>(user1, user2)\<close>, one that is down, and
  one whose table has room for \<open>n\<close> rows.
\<close>

definition unconstrained :: insert_policy where
  "unconstrained row rows = True"

definition unique_together :: insert_policy where
  "unique_together row rows = (row \<notin> set rows)"



text \<open>\<open>Friendship.objects.filter(user1=a, user2=b).exists()\<close>\<close>

definition Friendship_exists :: "user \<Rightarrow> user \<Rightarrow> db \<Rightarrow> bool" where
  "Friendship_exists a b d = (\<exists>f \<in> set (friendships d). user1 f = a \<and> user2 f = b)"

section \<open>The serializers and the notification service\<close>

text \<open>Modelled from the spec: \<open>notify(owner, kind, payload)\<close> of the Notification Service;
  no code that creates a \<open>Notification\<close> is among the sources. The spec: "creates a
  Notification with is_read=false. Pure append; no validation beyond owner existing."
  The key and the timestamp of the new row come from the database and are parameters;
  kind and payload are not columns the views read and are left out.
\<close>

definition notify :: "user \<Rightarrow> int \<Rightarrow> int \<Rightarrow> db \<Rightarrow> db" where
  "notify owner nid now d =
     d\<lparr>notifications := notifications d @
        [\<lparr>n_id = nid, n_user = owner, is_read = False, n_timestamp = now\<rparr>]\<rparr>"

text \<open>Modelled from the spec: the validation of \<open>FriendRequestSerializer\<close>
  (\<open>core/serializers.py\<close> is not among the sources). The spec: "create(sender, receiver)
  fails with InvalidTarget if sender == receiver. Does not itself reject duplicate
  pending requests or pre-existing friendships."
\<close>

definition FriendRequestSerializer_is_valid :: "user \<Rightarrow> friend_request \<Rightarrow> bool" where
  "FriendRequestSerializer_is_valid sender data = (fr_receiver data \<noteq> sender)"

text \<open>Modelled from the spec: \<open>FriendRequestSerializer.save(sender=...)\<close> and the receiver of
  the event it raises (\<open>core/serializers.py\<close>, \<open>core/models.py\<close> and any signal receiver
  are not among the sources). The spec: "new FriendRequest with status=pending";
  "successful create enqueues a Notification for the counterparty (request creation
  notifies receiver)".
\<close>

definition FriendRequestSerializer_save ::
  "user \<Rightarrow> int \<Rightarrow> int \<Rightarrow> friend_request \<Rightarrow> db \<Rightarrow> db" where
  "FriendRequestSerializer_save sender nid now data d =
     notify (fr_receiver data) nid now
       (d\<lparr>friend_requests :=
            friend_requests d @ [data\<lparr>fr_sender := sender, fr_status := ''pending''\<rparr>]\<rparr>)"

text \<open>Modelled from the spec: the validation of \<open>MessageSerializer\<close>
  (\<open>core/serializers.py\<close> is not among the sources). The spec: "send(sender, receiver,
  body) fails with InvalidTarget if sender == receiver or body is empty. Does not
  require sender and receiver to be friends."
\<close>

definition MessageSerializer_is_valid :: "user \<Rightarrow> message \<Rightarrow> bool" where
  "MessageSerializer_is_valid sender data = (msg_receiver data \<noteq> sender \<and> msg_body data \<noteq> [])"

text \<open>Modelled from the spec: \<open>MessageSerializer.save(sender=...)\<close> and the receiver of the
  event it raises (not among the sources). The spec: "Creates a Message; on success,
  enqueues a Notification to receiver."
\<close>

definition MessageSerializer_save :: "user \<Rightarrow> int \<Rightarrow> int \<Rightarrow> message \<Rightarrow> db \<Rightarrow> db" where
  "MessageSerializer_save sender nid now data d =
     notify (msg_receiver data) nid now
       (d\<lparr>messages := messages d @ [data\<lparr>msg_sender := sender\<rparr>]\<rparr>)"

section \<open>\<open>FriendRequestViewSet\<close>\<close>

text \<open>
  \<open>order_by('-created_at')\<close>: newest first; requests with equal \<open>created_at\<close> are kept in
  table order here, an order the query leaves to the database.
\<close>

definition FriendRequest_get_queryset :: "user \<Rightarrow> db \<Rightarrow> friend_request list" where
  "FriendRequest_get_queryset u d =
     sort_key (\<lambda>r. - fr_created_at r) (filter (\<lambda>r. fr_receiver r = u) (friend_requests d))"

text \<open>\<open>perform_create\<close>: \<open>serializer.save(sender=self.request.user)\<close>.\<close>

definition FriendRequest_perform_create ::
  "user \<Rightarrow> int \<Rightarrow> int \<Rightarrow> friend_request \<Rightarrow> db \<Rightarrow> db" where
  "FriendRequest_perform_create u nid now data d = FriendRequestSerializer_save u nid now data d"

text \<open>
  The \<open>create\<close> action that \<open>ModelViewSet\<close> provides: \<open>is_valid(raise_exception=True)\<close>,
  then \<open>perform_create\<close>, then status 201 (the body, the serialized row, is left out).
\<close>

definition FriendRequest_create ::
  "user \<Rightarrow> int \<Rightarrow> int \<Rightarrow> friend_request \<Rightarrow> db \<Rightarrow> response \<times> db" where
  "FriendRequest_create u nid now data d =
     (if FriendRequestSerializer_is_valid u data
      then (Response 201 [], FriendRequest_perform_create u nid now data d)
      else (Raised InvalidTarget, d))"

definition accept :: "insert_policy \<Rightarrow> int \<Rightarrow> user \<Rightarrow> db \<Rightarrow> response \<times> db" where
  "accept accepts pk u d =
     (case get_object_or_404 (\<lambda>r. fr_id r = pk \<and> fr_receiver r = u) (friend_requests d) of
        Inl e \<Rightarrow> (Raised e, d)
      | Inr fr \<Rightarrow>
          if fr_status fr \<noteq> ''pending''
          then (Response 400 [(''detail'', ''Request already processed'')], d)
          else if Friendship_exists (fr_sender fr) (fr_receiver fr) d
          then (Response 400 [(''detail'', ''Already friends'')], d)
          else
            let fr' = fr\<lparr>fr_status := ''accepted''\<rparr>;
                d1 = save_friend_request fr' d
            in case Friendship_create accepts (fr_sender fr') (fr_receiver fr') d1 of
                 Inl e \<Rightarrow> (Raised e, d1)
               | Inr d2 \<Rightarrow>
                   (case Friendship_create accepts (fr_receiver fr') (fr_sender fr') d2 of
                      Inl e \<Rightarrow> (Raised e, d2)
                    | Inr d3 \<Rightarrow>
                        (Response 200 [(''detail'', ''Friend request accepted''),
                                       (''status'', fr_status fr')], d3)))"

definition decline :: "int \<Rightarrow> user \<Rightarrow> db \<Rightarrow> response \<times> db" where
  "decline pk u d =
     (case get_object_or_404 (\<lambda>r. fr_id r = pk \<and> fr_receiver r = u) (friend_requests d) of
        Inl e \<Rightarrow> (Raised e, d)
      | Inr fr \<Rightarrow>
          if fr_status fr \<noteq> ''pending''
          then (Response 400 [(''detail'', ''Request already processed'')], d)
          else
            let fr' = fr\<lparr>fr_status := ''declined''\<rparr>
            in (Response 200 [(''detail'', ''Friend request declined''),
                              (''status'', fr_status fr')], save_friend_request fr' d))"

text \<open>A response below 400; an exception is no success.\<close>

definition succeeded :: "response \<Rightarrow> bool" where
  "succeeded r = (case r of Response code body \<Rightarrow> code < 400 | Raised e \<Rightarrow> False)"

text \<open>Modelled from the spec: the event of a successful \<open>accept\<close> and its delivery; the view
  itself writes no \<open>Notification\<close>, and no receiver of its \<open>save()\<close> is among the sources.
  The spec: "successful accept enqueues a Notification for the counterparty (acceptance
  notifies sender)", as "an explicit output event the Notification Service subscribes
  to, not a direct database write from within this component".
\<close>

definition accept_notifying ::
  "insert_policy \<Rightarrow> int \<Rightarrow> int \<Rightarrow> int \<Rightarrow> user \<Rightarrow> db \<Rightarrow> response \<times> db" where
  "accept_notifying accepts nid now pk u d =
     (let (r, d') = accept accepts pk u d
      in case get_object_or_404 (\<lambda>x. fr_id x = pk \<and> fr_receiver x = u) (friend_requests d) of
           Inl e \<Rightarrow> (r, d')
         | Inr fr \<Rightarrow> if succeeded r then (r, notify (fr_sender fr) nid now d') else (r, d'))"

section \<open>\<open>ChatMessageViewSet\<close>\<close>

text \<open>
  \<open>int(friend_id)\<close> on the value of \<open>query_params.get('friend_id')\<close>, which is \<open>None\<close>
  or a string. \<open>int(None)\<close> raises \<open>TypeError\<close>; \<open>int\<close> of a string returns an integer
  or raises \<open>ValueError\<close>. What the builtin reads from a string is a parameter
  \<open>int_str\<close> of the model, over any type \<open>'s\<close> of strings, so that nothing proved
  below depends on a list of the strings Python accepts.
\<close>

datatype py_exc = TypeError | ValueError

definition py_int :: "('s \<Rightarrow> int option) \<Rightarrow> 's option \<Rightarrow> py_exc + int" where
  "py_int int_str v =
     (case v of
        None \<Rightarrow> Inl TypeError
      | Some s \<Rightarrow> (case int_str s of None \<Rightarrow> Inl ValueError | Some n \<Rightarrow> Inr n))"

text \<open>
  The builtin on strings of code points below 256, one \<open>char\<close> each, used to run the
  examples. Leading and trailing white space is skipped: tab, LF, VT, FF, CR and space,
  and, since the string is then not ASCII, NEL (0x85) and NBSP (0xA0); the bytes 0x1C to
  0x1F are not skipped. What remains is an optional sign and decimal digits, where
  single underscores may stand between digits. The bound that recent Python versions
  put on the number of digits (a \<open>ValueError\<close> as well) is left out.
\<close>

definition is_space :: "char \<Rightarrow> bool" where
  "is_space c = (let n = (of_char c :: nat) in (9 \<le> n \<and> n \<le> 13) \<or> n = 32 \<or> n = 133 \<or> n = 160)"

definition is_digit :: "char \<Rightarrow> bool" where
  "is_digit c = (let n = (of_char c :: nat) in 48 \<le> n \<and> n \<le> 57)"

definition digit_val :: "char \<Rightarrow> int" where
  "digit_val c = int (of_char c) - 48"

definition strip :: "string \<Rightarrow> string" where
  "strip s = dropWhile is_space (rev (dropWhile is_space (rev s)))"

fun digits_from :: "int \<Rightarrow> string \<Rightarrow> int option"
  and digits_more :: "int \<Rightarrow> string \<Rightarrow> int option" where
  "digits_from acc [] = None"
| "digits_from acc (c # cs) =
     (if is_digit c then digits_more (10 * acc + digit_val c) cs else None)"
| "digits_more acc [] = Some acc"
| "digits_more acc (c # cs) =
     (if is_digit c then digits_more (10 * acc + digit_val c) cs
      else if c = CHR ''_'' then digits_from acc cs
      else None)"

definition int_latin1 :: "string \<Rightarrow> int option" where
  "int_latin1 s =
     (case strip s of
        [] \<Rightarrow> None
      | c # cs \<Rightarrow>
          if c = CHR ''-'' then map_option uminus (digits_from 0 cs)
          else if c = CHR ''+'' then digits_from 0 cs
          else digits_from 0 (c # cs))"

text \<open>An integer that can be bound as a parameter of a query: 64 bits, signed.\<close>

definition in_int64 :: "int \<Rightarrow> bool" where
  "in_int64 n = (- (2 ^ 63) \<le> n \<and> n < 2 ^ 63)"

text \<open>
  \<open>order_by('timestamp')\<close> names no second key: the order of messages with equal
  timestamps is the order in which the database's plan for the query produces them. That
  order is the parameter \<open>tie\<close>, a key by which messages of equal timestamp are ordered;
  it may differ from one query to the next. (Messages equal in both keys keep table
  order.) Two plans: in order of primary key, and the rows the caller sent first, as a
  plan does that runs the two sides of the \<open>|\<close> one after the other.
\<close>

definition by_id :: "message \<Rightarrow> int" where
  "by_id m = msg_id m"

definition caller_first :: "user \<Rightarrow> message \<Rightarrow> int" where
  "caller_first u m = (if msg_sender m = u then 0 else 1)"

definition ChatMessage_get_queryset ::
  "('s \<Rightarrow> int option) \<Rightarrow> (message \<Rightarrow> int) \<Rightarrow> user \<Rightarrow> 's option \<Rightarrow> db \<Rightarrow> exc + message list" where
  "ChatMessage_get_queryset int_str tie u friend_id d =
     (case py_int int_str friend_id of
        Inl TypeError \<Rightarrow> Inr []
      | Inl ValueError \<Rightarrow> Inr []
      | Inr fid \<Rightarrow>
          if \<not> in_int64 fid then Inl OverflowError
          else Inr (sort_key msg_timestamp (sort_key tie
            (filter (\<lambda>m. (msg_sender m = u \<and> msg_receiver m = fid) \<or>
                         (msg_sender m = fid \<and> msg_receiver m = u))
               (messages d)))))"

text \<open>\<open>perform_create\<close>: \<open>serializer.save(sender=self.request.user)\<close>.\<close>

definition ChatMessage_perform_create :: "user \<Rightarrow> int \<Rightarrow> int \<Rightarrow> message \<Rightarrow> db \<Rightarrow> db" where
  "ChatMessage_perform_create u nid now data d = MessageSerializer_save u nid now data d"

text \<open>The \<open>create\<close> action that \<open>ModelViewSet\<close> provides, as for friend requests.\<close>

definition ChatMessage_create :: "user \<Rightarrow> int \<Rightarrow> int \<Rightarrow> message \<Rightarrow> db \<Rightarrow> response \<times> db" where
  "ChatMessage_create u nid now data d =
     (if MessageSerializer_is_valid u data
      then (Response 201 [], ChatMessage_perform_create u nid now data d)
      else (Raised InvalidTarget, d))"

section \<open>Notifications\<close>

text \<open>\<open>order_by('-timestamp')\<close>: newest first, equal timestamps in table order here.\<close>

definition Notification_get_queryset :: "user \<Rightarrow> db \<Rightarrow> notification list" where
  "Notification_get_queryset u d =
     sort_key (\<lambda>n. - n_timestamp n) (filter (\<lambda>n. n_user n = u) (notifications d))"

definition mark_read_post :: "int \<Rightarrow> user \<Rightarrow> db \<Rightarrow> response \<times> db" where
  "mark_read_post pk u d =
     (case get_object_or_404 (\<lambda>n. n_id n = pk \<and> n_user n = u) (notifications d) of
        Inl e \<Rightarrow> (Raised e, d)
      | Inr n \<Rightarrow>
          (Response 200 [(''detail'', ''Notification marked as read.'')],
           save_notification (n\<lparr>is_read := True\<rparr>) d))"

section \<open>Properties of the friendship table\<close>

text \<open>
  \<open>paired\<close>: every row has its reverse row. \<open>enforces_unique\<close>: the database never
  accepts a row that is already in the table.
\<close>

definition paired :: "db \<Rightarrow> bool" where
  "paired d = (\<forall>f \<in> set (friendships d). Friendship_exists (user2 f) (user1 f) d)"

definition enforces_unique :: "insert_policy \<Rightarrow> bool" where
  "enforces_unique accepts = (\<forall>row rows. accepts row rows \<longrightarrow> row \<notin> set rows)"


section \<open>Example states\<close>

text \<open>Users 1, 2 and 3. Request 1 goes from user 1 to user 2.\<close>

definition req_pending :: friend_request where
  "req_pending =
     \<lparr>fr_id = 1, fr_sender = 1, fr_receiver = 2, fr_status = ''pending'', fr_created_at = 10\<rparr>"

definition req_accepted :: friend_request where
  "req_accepted =
     \<lparr>fr_id = 1, fr_sender = 1, fr_receiver = 2, fr_status = ''accepted'', fr_created_at = 10\<rparr>"

definition db_pending :: db where
  "db_pending =
     \<lparr>friend_requests = [req_pending], friendships = [], messages = [], notifications = []\<rparr>"

definition db_accepted :: db where
  "db_accepted =
     \<lparr>friend_requests = [req_accepted],
      friendships = [\<lparr>user1 = 1, user2 = 2\<rparr>, \<lparr>user1 = 2, user2 = 1\<rparr>],
      messages = [], notifications = []\<rparr>"

text \<open>The request is pending and the table holds the row from 2 to 1 only.\<close>

definition db_reverse :: db where
  "db_reverse =
     \<lparr>friend_requests = [req_pending], friendships = [\<lparr>user1 = 2, user2 = 1\<rparr>],
      messages = [], notifications = []\<rparr>"

text \<open>Messages, notifications and a second request, for users 1, 2 and 3.\<close>

definition msg_hi :: message where
  "msg_hi = \<lparr>msg_id = 1, msg_sender = 1, msg_receiver = 2, msg_body = ''hi'', msg_timestamp = 5\<rparr>"

definition msg_yo :: message where
  "msg_yo = \<lparr>msg_id = 2, msg_sender = 3, msg_receiver = 2, msg_body = ''yo'', msg_timestamp = 6\<rparr>"

definition msg_hello :: message where
  "msg_hello = \<lparr>msg_id = 3, msg_sender = 2, msg_receiver = 1, msg_body = ''hello'', msg_timestamp = 7\<rparr>"

definition note_for_2 :: notification where
  "note_for_2 = \<lparr>n_id = 1, n_user = 2, is_read = False, n_timestamp = 3\<rparr>"

definition note_for_3 :: notification where
  "note_for_3 = \<lparr>n_id = 2, n_user = 3, is_read = False, n_timestamp = 4\<rparr>"

definition req_to_3 :: friend_request where
  "req_to_3 =
     \<lparr>fr_id = 2, fr_sender = 1, fr_receiver = 3, fr_status = ''pending'', fr_created_at = 11\<rparr>"

definition db_chat :: db where
  "db_chat =
     \<lparr>friend_requests = [req_pending, req_to_3], friendships = [],
      messages = [msg_hello, msg_yo, msg_hi], notifications = [note_for_2, note_for_3]\<rparr>"

definition db_read :: db where
  "db_read = db_chat\<lparr>notifications := [note_for_2\<lparr>is_read := True\<rparr>, note_for_3]\<rparr>"

definition db_empty :: db where
  "db_empty = \<lparr>friend_requests = [], friendships = [], messages = [], notifications = []\<rparr>"

definition msg_self :: message where
  "msg_self = \<lparr>msg_id = 1, msg_sender = 1, msg_receiver = 1, msg_body = ''x'', msg_timestamp = 5\<rparr>"

text \<open>Two messages between users 1 and 2 with the same timestamp, and one with an empty body.\<close>

definition msg_a :: message where
  "msg_a = \<lparr>msg_id = 1, msg_sender = 1, msg_receiver = 2, msg_body = ''a'', msg_timestamp = 5\<rparr>"

definition msg_b :: message where
  "msg_b = \<lparr>msg_id = 2, msg_sender = 2, msg_receiver = 1, msg_body = ''b'', msg_timestamp = 5\<rparr>"

definition db_tied :: db where
  "db_tied = \<lparr>friend_requests = [], friendships = [], messages = [msg_a, msg_b], notifications = []\<rparr>"

definition msg_blank :: message where
  "msg_blank = \<lparr>msg_id = 1, msg_sender = 1, msg_receiver = 2, msg_body = '''', msg_timestamp = 5\<rparr>"


section \<open>Lookups\<close>

lemma get_object_or_404_Inr:
  "get_object_or_404 P rows = Inr x \<Longrightarrow> x \<in> set rows \<and> P x"
  by (auto simp: get_object_or_404_def find_Some_iff split: option.splits)

lemma get_object_or_404_unique:
  assumes "x \<in> set rows" "P x" "\<And>y. y \<in> set rows \<Longrightarrow> P y \<Longrightarrow> y = x"
  shows "get_object_or_404 P rows = Inr x"
proof -
  have "find P rows \<noteq> None" using assms(1,2) by (auto simp: find_None_iff)
  then obtain y where y: "find P rows = Some y" by auto
  then have "y \<in> set rows \<and> P y" by (auto simp: find_Some_iff)
  with assms(3) have "y = x" by blast
  with y show ?thesis by (simp add: get_object_or_404_def)
qed

lemma get_object_or_404_none:
  assumes "\<And>y. y \<in> set rows \<Longrightarrow> \<not> P y"
  shows "get_object_or_404 P rows = Inl Http404"
  using assms by (auto simp: get_object_or_404_def find_None_iff split: option.splits)

lemma distinct_key_eq:
  "distinct (map f xs) \<Longrightarrow> x \<in> set xs \<Longrightarrow> y \<in> set xs \<Longrightarrow> f x = f y \<Longrightarrow> x = y"
  by (meson distinct_map inj_onD)

section \<open>Requests that were already processed\<close>

text \<open>
  C3, as stated, for any acting user: a request whose status is not \<open>pending\<close> makes
  \<open>accept\<close> answer "Request already processed". It fails for an acting user who is not
  the receiver: the lookup is restricted to \<open>receiver=request.user\<close> and raises
  \<open>Http404\<close> before the status is looked at. Here user 3 acts on the accepted request
  addressed to user 2.
\<close>

theorem processed_request_other_user_counterexample:
  "req_accepted \<in> set (friend_requests db_accepted) \<and> fr_status req_accepted \<noteq> ''pending'' \<and>
   accept unconstrained (fr_id req_accepted) 3 db_accepted = (Raised Http404, db_accepted) \<and>
   decline (fr_id req_accepted) 3 db_accepted = (Raised Http404, db_accepted)"
  by (simp add: req_accepted_def db_accepted_def accept_def decline_def get_object_or_404_def)

text \<open>
  C3, amended: for a request \<open>r\<close> of the table (primary keys distinct) whose status is
  not \<open>pending\<close>, \<open>accept\<close> and \<open>decline\<close> by the receiver of \<open>r\<close> answer 400
  "Request already processed", and by any other user raise \<open>Http404\<close>; in both cases
  the whole database, so the request and the friendship table, is left as it was.
\<close>

theorem processed_request_rejected:
  assumes "r \<in> set (friend_requests d)"
    and "distinct (map fr_id (friend_requests d))"
    and "fr_status r \<noteq> ''pending''"
  shows "accept pol (fr_id r) u d =
           (if u = fr_receiver r
            then (Response 400 [(''detail'', ''Request already processed'')], d)
            else (Raised Http404, d)) \<and>
         decline (fr_id r) u d =
           (if u = fr_receiver r
            then (Response 400 [(''detail'', ''Request already processed'')], d)
            else (Raised Http404, d))"
proof -
  let ?P = "\<lambda>x. fr_id x = fr_id r \<and> fr_receiver x = u"
  have only: "\<And>y. y \<in> set (friend_requests d) \<Longrightarrow> fr_id y = fr_id r \<Longrightarrow> y = r"
    using assms(1,2) distinct_key_eq by metis
  have look: "get_object_or_404 ?P (friend_requests d) =
                (if u = fr_receiver r then Inr r else Inl Http404)"
  proof (cases "u = fr_receiver r")
    case True
    then show ?thesis
      using get_object_or_404_unique [of r "friend_requests d" ?P] assms(1) only by auto
  next
    case False
    then show ?thesis
      using get_object_or_404_none [of "friend_requests d" ?P] only by auto
  qed
  have "accept pol (fr_id r) u d =
           (if u = fr_receiver r
            then (Response 400 [(''detail'', ''Request already processed'')], d)
            else (Raised Http404, d))"
    using look assms(3) by (simp add: accept_def)
  moreover have "decline (fr_id r) u d =
           (if u = fr_receiver r
            then (Response 400 [(''detail'', ''Request already processed'')], d)
            else (Raised Http404, d))"
    using look assms(3) by (simp add: decline_def)
  ultimately show ?thesis by simp
qed

theorem processed_request_rejected_witness:
  "accept unique_together 1 2 db_accepted =
     (Response 400 [(''detail'', ''Request already processed'')], db_accepted) \<and>
   decline 1 2 db_accepted =
     (Response 400 [(''detail'', ''Request already processed'')], db_accepted)"
proof -
  have a: "req_accepted \<in> set (friend_requests db_accepted)"
    by (simp add: db_accepted_def)
  have b: "distinct (map fr_id (friend_requests db_accepted))"
    by (simp add: db_accepted_def)
  have c: "fr_status req_accepted \<noteq> ''pending''"
    by (simp add: req_accepted_def)
  have "fr_id req_accepted = 1" "fr_receiver req_accepted = 2"
    by (simp_all add: req_accepted_def)
  then show ?thesis
    using processed_request_rejected [OF a b c, of unique_together 2] by simp
qed

section \<open>The writes of \<open>accept\<close>\<close>

lemma find_after_update:
  assumes "find (\<lambda>x. k x = pk \<and> Q x) rows = Some y" "k y' = pk" "Q y'"
  shows "find (\<lambda>x. k x = pk \<and> Q x) (map (\<lambda>x. if k x = pk then y' else x) rows) = Some y'"
  using assms by (induction rows) (auto split: if_splits)

lemma lookup_after_save:
  assumes "get_object_or_404 (\<lambda>r. fr_id r = pk \<and> fr_receiver r = u) (friend_requests d) = Inr fr"
    and "fr_id fr' = fr_id fr" "fr_receiver fr' = fr_receiver fr"
  shows "get_object_or_404 (\<lambda>r. fr_id r = pk \<and> fr_receiver r = u)
           (friend_requests (save_friend_request fr' d)) = Inr fr'"
proof -
  from assms(1) have f: "find (\<lambda>r. fr_id r = pk \<and> fr_receiver r = u) (friend_requests d) = Some fr"
    by (auto simp: get_object_or_404_def split: option.splits)
  then have "fr_id fr = pk" "fr_receiver fr = u" by (auto simp: find_Some_iff)
  with assms(2,3) have "fr_id fr' = pk" "fr_receiver fr' = u" by simp_all
  with find_after_update [OF f, of fr'] show ?thesis
    by (simp add: get_object_or_404_def save_friend_request_def)
qed

lemma accept_writes:
  assumes "get_object_or_404 (\<lambda>r. fr_id r = pk \<and> fr_receiver r = u) (friend_requests d) = Inr fr"
    and "fr_status fr = ''pending''"
    and "\<not> Friendship_exists (fr_sender fr) (fr_receiver fr) d"
  shows "accept pol pk u d =
     (let d1 = save_friend_request (fr\<lparr>fr_status := ''accepted''\<rparr>) d;
          ab = \<lparr>user1 = fr_sender fr, user2 = fr_receiver fr\<rparr>;
          ba = \<lparr>user1 = fr_receiver fr, user2 = fr_sender fr\<rparr>
      in if \<not> pol ab (friendships d) then (Raised DatabaseError, d1)
         else if \<not> pol ba (friendships d @ [ab])
         then (Raised DatabaseError, d1\<lparr>friendships := friendships d @ [ab]\<rparr>)
         else (Response 200 [(''detail'', ''Friend request accepted''), (''status'', ''accepted'')],
               d1\<lparr>friendships := friendships d @ [ab, ba]\<rparr>))"
  using assms
  by (simp add: accept_def Friendship_create_def save_friend_request_def Let_def)

lemma accept_early:
  assumes "get_object_or_404 (\<lambda>r. fr_id r = pk \<and> fr_receiver r = u) (friend_requests d) = Inr fr"
    and "fr_status fr \<noteq> ''pending'' \<or> Friendship_exists (fr_sender fr) (fr_receiver fr) d"
  shows "accept pol pk u d =
     (if fr_status fr \<noteq> ''pending''
      then (Response 400 [(''detail'', ''Request already processed'')], d)
      else (Response 400 [(''detail'', ''Already friends'')], d))"
  using assms by (auto simp add: accept_def)




section \<open>The rows a successful \<open>accept\<close> creates\<close>

lemma paired_reverse:
  "paired d \<Longrightarrow> Friendship_exists a b d \<Longrightarrow> Friendship_exists b a d"
  by (auto simp: paired_def Friendship_exists_def)

lemma unique_refuses_present:
  "enforces_unique pol \<Longrightarrow> pol \<lparr>user1 = a, user2 = b\<rparr> (friendships d @ rows) \<Longrightarrow>
     \<not> Friendship_exists a b d"
proof
  assume u: "enforces_unique pol" and p: "pol \<lparr>user1 = a, user2 = b\<rparr> (friendships d @ rows)"
    and e: "Friendship_exists a b d"
  from e obtain f where f: "f \<in> set (friendships d)" "user1 f = a" "user2 f = b"
    by (auto simp: Friendship_exists_def)
  then have "f = \<lparr>user1 = a, user2 = b\<rparr>" by simp
  with f(1) have "\<lparr>user1 = a, user2 = b\<rparr> \<in> set (friendships d @ rows)" by simp
  moreover from u p have "\<lparr>user1 = a, user2 = b\<rparr> \<notin> set (friendships d @ rows)"
    unfolding enforces_unique_def by blast
  ultimately show False by blast
qed

text \<open>
  C2, amended: when \<open>accept\<close> answers 200 for the request from A to B, the request was
  pending and is stored as accepted, both rows (A,B) and (B,A) are in the table
  afterwards, and the row (A,B) was not there before. The row (B,A) was not there before
  either, provided the table held its rows in pairs or the database refuses a row that is
  already present: the view itself looks for (A,B) only.
\<close>

theorem accept_creates_both_rows:
  assumes look: "get_object_or_404 (\<lambda>r. fr_id r = pk \<and> fr_receiver r = u) (friend_requests d) = Inr fr"
    and ok: "accept pol pk u d = (Response 200 body, d')"
  shows "fr_status fr = ''pending'' \<and>
         get_object_or_404 (\<lambda>r. fr_id r = pk \<and> fr_receiver r = u) (friend_requests d') =
           Inr (fr\<lparr>fr_status := ''accepted''\<rparr>) \<and>
         Friendship_exists (fr_sender fr) (fr_receiver fr) d' \<and>
         Friendship_exists (fr_receiver fr) (fr_sender fr) d' \<and>
         \<not> Friendship_exists (fr_sender fr) (fr_receiver fr) d \<and>
         (paired d \<or> enforces_unique pol \<longrightarrow> \<not> Friendship_exists (fr_receiver fr) (fr_sender fr) d)"
proof -
  let ?ab = "\<lparr>user1 = fr_sender fr, user2 = fr_receiver fr\<rparr>"
  let ?ba = "\<lparr>user1 = fr_receiver fr, user2 = fr_sender fr\<rparr>"
  let ?d1 = "save_friend_request (fr\<lparr>fr_status := ''accepted''\<rparr>) d"
  have early: "\<not> (fr_status fr \<noteq> ''pending'' \<or> Friendship_exists (fr_sender fr) (fr_receiver fr) d)"
  proof
    assume a: "fr_status fr \<noteq> ''pending'' \<or> Friendship_exists (fr_sender fr) (fr_receiver fr) d"
    show False
    proof (cases "fr_status fr \<noteq> ''pending''")
      case True
      with accept_early [OF look a, of pol] ok show False by simp
    next
      case False
      with accept_early [OF look a, of pol] ok show False by simp
    qed
  qed
  then have pend: "fr_status fr = ''pending''"
    and new: "\<not> Friendship_exists (fr_sender fr) (fr_receiver fr) d" by simp_all
  have w: "pol ?ab (friendships d) \<and> pol ?ba (friendships d @ [?ab]) \<and>
           d' = ?d1\<lparr>friendships := friendships d @ [?ab, ?ba]\<rparr>"
    using accept_writes [OF look pend new, of pol] ok
    by (auto simp: Let_def split: if_splits)
  have l1: "get_object_or_404 (\<lambda>r. fr_id r = pk \<and> fr_receiver r = u) (friend_requests d') =
           Inr (fr\<lparr>fr_status := ''accepted''\<rparr>)"
    using lookup_after_save [OF look, of "fr\<lparr>fr_status := ''accepted''\<rparr>"] w by simp
  have both: "Friendship_exists (fr_sender fr) (fr_receiver fr) d' \<and>
              Friendship_exists (fr_receiver fr) (fr_sender fr) d'"
    using w by (simp add: Friendship_exists_def)
  have rev: "paired d \<or> enforces_unique pol \<longrightarrow> \<not> Friendship_exists (fr_receiver fr) (fr_sender fr) d"
    using paired_reverse [of d "fr_receiver fr" "fr_sender fr"] new
      unique_refuses_present [of pol "fr_receiver fr" "fr_sender fr" d "[?ab]"] w
    by blast
  show ?thesis using pend l1 both new rev by simp
qed

text \<open>
  C2, as stated: neither row existed before a successful \<open>accept\<close>. With the row from 2
  to 1 in a table without a uniqueness constraint, user 2 accepting the request from 1
  succeeds, and the row from 2 to 1 was there before.
\<close>

theorem accept_reverse_row_counterexample:
  "accept unconstrained 1 2 db_reverse =
     (Response 200 [(''detail'', ''Friend request accepted''), (''status'', ''accepted'')],
      \<lparr>friend_requests = [req_accepted],
       friendships = [\<lparr>user1 = 2, user2 = 1\<rparr>, \<lparr>user1 = 1, user2 = 2\<rparr>, \<lparr>user1 = 2, user2 = 1\<rparr>],
       messages = [], notifications = []\<rparr>) \<and>
   Friendship_exists 2 1 db_reverse"
  by (simp add: accept_def get_object_or_404_def db_reverse_def req_pending_def
      req_accepted_def Friendship_exists_def Friendship_create_def unconstrained_def
      save_friend_request_def)

text \<open>The amended C2 at the accept of request 1 by user 2, from an empty friendship table.\<close>

theorem accept_creates_both_rows_witness:
  "Friendship_exists 1 2 db_accepted \<and> Friendship_exists 2 1 db_accepted \<and>
   \<not> Friendship_exists 1 2 db_pending \<and> \<not> Friendship_exists 2 1 db_pending \<and>
   get_object_or_404 (\<lambda>r. fr_id r = 1 \<and> fr_receiver r = 2) (friend_requests db_accepted) =
     Inr req_accepted"
proof -
  have look: "get_object_or_404 (\<lambda>r. fr_id r = 1 \<and> fr_receiver r = 2)
                (friend_requests db_pending) = Inr req_pending"
    by (simp add: get_object_or_404_def db_pending_def req_pending_def)
  have ok: "accept unique_together 1 2 db_pending =
              (Response 200 [(''detail'', ''Friend request accepted''), (''status'', ''accepted'')],
               db_accepted)"
    by (simp add: accept_def get_object_or_404_def db_pending_def db_accepted_def
        req_pending_def req_accepted_def Friendship_exists_def Friendship_create_def
        unique_together_def save_friend_request_def)
  have u: "enforces_unique unique_together"
    by (simp add: enforces_unique_def unique_together_def)
  have e: "req_pending\<lparr>fr_status := ''accepted''\<rparr> = req_accepted"
    "fr_sender req_pending = 1" "fr_receiver req_pending = 2"
    by (simp_all add: req_pending_def req_accepted_def)
  show ?thesis using accept_creates_both_rows [OF look ok] u e by simp
qed

section \<open>The check for an existing friendship\<close>

text \<open>
  C4, amended: for a pending request from A to B, \<open>accept\<close> answers 400 "Already
  friends" and leaves the database as it was when the row (A,B) exists; the row (B,A)
  has the same effect only in a table that holds its rows in pairs, since the lookup is
  for \<open>user1 = sender, user2 = receiver\<close>. The check comes before any write.
\<close>

theorem accept_duplicate_check:
  assumes look: "get_object_or_404 (\<lambda>r. fr_id r = pk \<and> fr_receiver r = u) (friend_requests d) = Inr fr"
    and pend: "fr_status fr = ''pending''"
    and dup: "Friendship_exists (fr_sender fr) (fr_receiver fr) d \<or>
              (paired d \<and> Friendship_exists (fr_receiver fr) (fr_sender fr) d)"
  shows "accept pol pk u d = (Response 400 [(''detail'', ''Already friends'')], d)"
proof -
  from dup have "Friendship_exists (fr_sender fr) (fr_receiver fr) d"
    using paired_reverse by blast
  then show ?thesis using accept_early [OF look, of pol] pend by simp
qed

text \<open>
  C4, as stated: a row in either direction makes \<open>accept\<close> fail with the duplicate
  answer before anything is written. With only the row from 2 to 1 and a unique pair
  constraint, accepting the request from 1 to 2 passes the check, stores the request as
  accepted, inserts the row from 1 to 2 and then fails on the second insert.
\<close>

theorem accept_duplicate_check_counterexample:
  "fr_status req_pending = ''pending'' \<and> Friendship_exists 2 1 db_reverse \<and>
   accept unique_together 1 2 db_reverse =
     (Raised DatabaseError,
      \<lparr>friend_requests = [req_accepted],
       friendships = [\<lparr>user1 = 2, user2 = 1\<rparr>, \<lparr>user1 = 1, user2 = 2\<rparr>],
       messages = [], notifications = []\<rparr>)"
  by (simp add: accept_def get_object_or_404_def db_reverse_def req_pending_def
      req_accepted_def Friendship_exists_def Friendship_create_def unique_together_def
      save_friend_request_def)

text \<open>The amended C4 on a table holding both rows between users 1 and 2.\<close>

theorem accept_duplicate_check_witness:
  "accept unconstrained 1 2 (db_pending\<lparr>friendships := [\<lparr>user1 = 1, user2 = 2\<rparr>, \<lparr>user1 = 2, user2 = 1\<rparr>]\<rparr>) =
     (Response 400 [(''detail'', ''Already friends'')],
      db_pending\<lparr>friendships := [\<lparr>user1 = 1, user2 = 2\<rparr>, \<lparr>user1 = 2, user2 = 1\<rparr>]\<rparr>)"
proof -
  let ?d = "db_pending\<lparr>friendships := [\<lparr>user1 = 1, user2 = 2\<rparr>, \<lparr>user1 = 2, user2 = 1\<rparr>]\<rparr>"
  have look: "get_object_or_404 (\<lambda>r. fr_id r = 1 \<and> fr_receiver r = 2)
                (friend_requests ?d) = Inr req_pending"
    by (simp add: get_object_or_404_def db_pending_def req_pending_def)
  have pend: "fr_status req_pending = ''pending''" by (simp add: req_pending_def)
  have dup: "Friendship_exists (fr_sender req_pending) (fr_receiver req_pending) ?d \<or>
             (paired ?d \<and> Friendship_exists (fr_receiver req_pending) (fr_sender req_pending) ?d)"
    by (simp add: Friendship_exists_def paired_def req_pending_def db_pending_def)
  show ?thesis using accept_duplicate_check [OF look pend dup, of unconstrained] .
qed

section \<open>Notifications for the counterparty\<close>

lemma accept_keeps_notifications:
  "notifications (snd (accept pol pk u d)) = notifications d"
  by (simp add: accept_def Friendship_create_def save_friend_request_def Let_def
      split: sum.splits)

text \<open>
  C5: a create that the validation lets through answers 201, stores the request as
  pending and appends an unread notification owned by the receiver. \<open>accept\<close> with its
  event delivered answers what \<open>accept\<close> answers, and when that is a success it appends
  an unread notification owned by the sender of the request; when it is not, nothing is
  added to what \<open>accept\<close> wrote.
\<close>

theorem success_notifies_counterparty:
  "(FriendRequestSerializer_is_valid sender data \<longrightarrow>
      fst (FriendRequest_create sender nid now data d) = Response 201 [] \<and>
      friend_requests (snd (FriendRequest_create sender nid now data d)) =
        friend_requests d @ [data\<lparr>fr_sender := sender, fr_status := ''pending''\<rparr>] \<and>
      notifications (snd (FriendRequest_create sender nid now data d)) =
        notifications d @
          [\<lparr>n_id = nid, n_user = fr_receiver data, is_read = False, n_timestamp = now\<rparr>]) \<and>
   fst (accept_notifying pol nid now pk u d) = fst (accept pol pk u d) \<and>
   (get_object_or_404 (\<lambda>r. fr_id r = pk \<and> fr_receiver r = u) (friend_requests d) = Inr fr \<and>
    succeeded (fst (accept pol pk u d)) \<longrightarrow>
      notifications (snd (accept_notifying pol nid now pk u d)) =
        notifications d @
          [\<lparr>n_id = nid, n_user = fr_sender fr, is_read = False, n_timestamp = now\<rparr>]) \<and>
   (\<not> succeeded (fst (accept pol pk u d)) \<longrightarrow>
      snd (accept_notifying pol nid now pk u d) = snd (accept pol pk u d))"
proof -
  have c: "FriendRequestSerializer_is_valid sender data \<longrightarrow>
      fst (FriendRequest_create sender nid now data d) = Response 201 [] \<and>
      friend_requests (snd (FriendRequest_create sender nid now data d)) =
        friend_requests d @ [data\<lparr>fr_sender := sender, fr_status := ''pending''\<rparr>] \<and>
      notifications (snd (FriendRequest_create sender nid now data d)) =
        notifications d @
          [\<lparr>n_id = nid, n_user = fr_receiver data, is_read = False, n_timestamp = now\<rparr>]"
    by (simp add: FriendRequest_create_def FriendRequest_perform_create_def
        FriendRequestSerializer_save_def notify_def)
  have r: "fst (accept_notifying pol nid now pk u d) = fst (accept pol pk u d)"
    by (simp add: accept_notifying_def split: prod.splits sum.splits)
  have a: "get_object_or_404 (\<lambda>r. fr_id r = pk \<and> fr_receiver r = u) (friend_requests d) = Inr fr \<and>
    succeeded (fst (accept pol pk u d)) \<longrightarrow>
      notifications (snd (accept_notifying pol nid now pk u d)) =
        notifications d @
          [\<lparr>n_id = nid, n_user = fr_sender fr, is_read = False, n_timestamp = now\<rparr>]"
    using accept_keeps_notifications [of pol pk u d]
    by (auto simp: accept_notifying_def notify_def split: prod.splits)
  have n: "\<not> succeeded (fst (accept pol pk u d)) \<longrightarrow>
      snd (accept_notifying pol nid now pk u d) = snd (accept pol pk u d)"
    by (auto simp: accept_notifying_def split: prod.splits sum.splits)
  show ?thesis using c r a n by blast
qed

text \<open>
  C5 at user 1 creating the request to user 2, and at user 2 accepting it: a notification
  for user 2, then one for user 1.
\<close>

theorem success_notifies_counterparty_witness:
  "FriendRequest_create 1 7 20 req_pending db_empty =
     (Response 201 [],
      \<lparr>friend_requests = [req_pending], friendships = [], messages = [],
       notifications = [\<lparr>n_id = 7, n_user = 2, is_read = False, n_timestamp = 20\<rparr>]\<rparr>) \<and>
   fst (accept_notifying unique_together 8 30 1 2 db_pending) =
     Response 200 [(''detail'', ''Friend request accepted''), (''status'', ''accepted'')] \<and>
   notifications (snd (accept_notifying unique_together 8 30 1 2 db_pending)) =
     [\<lparr>n_id = 8, n_user = 1, is_read = False, n_timestamp = 30\<rparr>]"
proof -
  have v: "FriendRequestSerializer_is_valid 1 req_pending"
    by (simp add: FriendRequestSerializer_is_valid_def req_pending_def)
  have look: "get_object_or_404 (\<lambda>r. fr_id r = 1 \<and> fr_receiver r = 2)
                (friend_requests db_pending) = Inr req_pending"
    by (simp add: get_object_or_404_def db_pending_def req_pending_def)
  have ok: "accept unique_together 1 2 db_pending =
              (Response 200 [(''detail'', ''Friend request accepted''), (''status'', ''accepted'')],
               db_accepted)"
    by (simp add: accept_def get_object_or_404_def db_pending_def db_accepted_def
        req_pending_def req_accepted_def Friendship_exists_def Friendship_create_def
        unique_together_def save_friend_request_def)
  have s: "succeeded (fst (accept unique_together 1 2 db_pending))"
    by (simp add: ok succeeded_def)
  have c: "FriendRequest_create 1 7 20 req_pending db_empty =
     (Response 201 [],
      \<lparr>friend_requests = [req_pending], friendships = [], messages = [],
       notifications = [\<lparr>n_id = 7, n_user = 2, is_read = False, n_timestamp = 20\<rparr>]\<rparr>)"
    using success_notifies_counterparty [where sender = 1 and data = req_pending and nid = 7
        and now = 20 and d = db_empty] v
    by (simp add: FriendRequest_create_def FriendRequest_perform_create_def
        FriendRequestSerializer_save_def notify_def db_empty_def req_pending_def)
  have "fst (accept_notifying unique_together 8 30 1 2 db_pending) =
          fst (accept unique_together 1 2 db_pending) \<and>
        notifications (snd (accept_notifying unique_together 8 30 1 2 db_pending)) =
          notifications db_pending @
            [\<lparr>n_id = 8, n_user = fr_sender req_pending, is_read = False, n_timestamp = 30\<rparr>]"
    using success_notifies_counterparty [where u = 2 and pk = 1 and pol = unique_together
        and nid = 8 and now = 30 and d = db_pending and fr = req_pending]
      look s by blast
  then show ?thesis using c ok by (simp add: db_pending_def req_pending_def)
qed

section \<open>Threads\<close>

lemmas int_latin1_simps = int_latin1_def strip_def is_space_def is_digit_def digit_val_def

lemma int_latin1_examples:
  "int_latin1 '' 1_0 '' = Some 10"
  "int_latin1 ''-7'' = Some (- 7)"
  "int_latin1 [CHR 0xA0, CHR ''2''] = Some 2"
  "int_latin1 [CHR 0x1C, CHR ''2''] = None"
  "int_latin1 ''1__0'' = None"
  by (simp_all add: int_latin1_simps)

text \<open>
  Two sequences of the same rows, both ascending in a key, have the same sequence of keys;
  they are the same sequence when the keys are distinct.
\<close>

lemma sorted_keys_unique:
  assumes "mset xs = mset ys" "sorted (map f xs)" "sorted (map f ys)"
  shows "map f xs = map f ys"
proof -
  have "mset (map f xs) = mset (map f ys)" using assms(1) by (metis mset_map)
  then have "sort (map f ys) = map f xs" using assms(2) by (rule properties_for_sort)
  moreover have "sort (map f ys) = map f ys" using assms(3) by (rule sorted_sort_id)
  ultimately show ?thesis by simp
qed

lemma sorted_order_determined:
  assumes "mset xs = mset ys" "sorted (map f xs)" "sorted (map f ys)" "distinct (map f ys)"
  shows "xs = ys"
proof -
  have m: "map f xs = map f ys" using assms(1-3) by (rule sorted_keys_unique)
  then have dx: "distinct (map f xs)" using assms(4) by simp
  have "set xs = set ys" using assms(1) by (metis set_mset_mset)
  moreover have "inj_on f (set xs \<union> set ys)"
    using assms(4) calculation by (simp add: distinct_map)
  ultimately show ?thesis
    using map_sorted_distinct_set_unique [of f xs ys] assms(2,3,4) dx by blast
qed

text \<open>
  C7, amended: for users A and B (keys within 64 bits), with the counterpart given by a
  string that \<open>int\<close> reads as the other user's key, both threads are returned; the
  thread of A with B holds exactly the messages from A to B or from B to A (each as often
  as it is in the table) in ascending order of timestamp; the thread of B with A holds
  the same messages, ascending as well and with the same sequence of timestamps. The
  two are the same sequence when the timestamps of the thread are distinct, or when the
  database orders equal timestamps the same way for both queries.
\<close>

theorem thread_symmetric:
  assumes "int_str fa = Some a" and "int_str fb = Some b"
    and "in_int64 a" and "in_int64 b"
  shows "\<exists>xs ys.
           ChatMessage_get_queryset int_str tie_a a (Some fb) d = Inr xs \<and>
           ChatMessage_get_queryset int_str tie_b b (Some fa) d = Inr ys \<and>
           mset xs =
             mset (filter (\<lambda>m. (msg_sender m = a \<and> msg_receiver m = b) \<or>
                                (msg_sender m = b \<and> msg_receiver m = a)) (messages d)) \<and>
           sorted (map msg_timestamp xs) \<and>
           mset ys = mset xs \<and>
           sorted (map msg_timestamp ys) \<and>
           map msg_timestamp ys = map msg_timestamp xs \<and>
           (distinct (map msg_timestamp xs) \<or> tie_a = tie_b \<longrightarrow> ys = xs)"
proof -
  let ?P = "\<lambda>m. (msg_sender m = a \<and> msg_receiver m = b) \<or> (msg_sender m = b \<and> msg_receiver m = a)"
  let ?xs = "sort_key msg_timestamp (sort_key tie_a (filter ?P (messages d)))"
  let ?ys = "sort_key msg_timestamp (sort_key tie_b (filter ?P (messages d)))"
  have sym: "(\<lambda>m. (msg_sender m = b \<and> msg_receiver m = a) \<or> (msg_sender m = a \<and> msg_receiver m = b)) = ?P"
    by auto
  have x: "ChatMessage_get_queryset int_str tie_a a (Some fb) d = Inr ?xs"
    using assms by (simp add: ChatMessage_get_queryset_def py_int_def)
  have y: "ChatMessage_get_queryset int_str tie_b b (Some fa) d = Inr ?ys"
    using assms by (simp add: ChatMessage_get_queryset_def py_int_def sym)
  have mx: "mset ?xs = mset (filter ?P (messages d))" by simp
  have my: "mset ?ys = mset ?xs" by simp
  have sx: "sorted (map msg_timestamp ?xs)" and sy: "sorted (map msg_timestamp ?ys)"
    by simp_all
  have k: "map msg_timestamp ?ys = map msg_timestamp ?xs"
    using my sy sx by (rule sorted_keys_unique)
  have e: "distinct (map msg_timestamp ?xs) \<or> tie_a = tie_b \<longrightarrow> ?ys = ?xs"
    using sorted_order_determined [OF my sy sx] by blast
  show ?thesis using x y mx my sx sy k e by blast
qed

text \<open>
  C7, as stated: the thread of A with B and the thread of B with A are the same sequence.
  Two messages between users 1 and 2 carry the same timestamp, and the database hands out
  the rows the caller sent first: user 1 reads a then b, user 2 reads b then a.
\<close>

theorem thread_tied_counterexample:
  "ChatMessage_get_queryset int_latin1 (caller_first 1) 1 (Some ''2'') db_tied =
     Inr [msg_a, msg_b] \<and>
   ChatMessage_get_queryset int_latin1 (caller_first 2) 2 (Some ''1'') db_tied =
     Inr [msg_b, msg_a] \<and>
   [msg_a, msg_b] \<noteq> [msg_b, msg_a]"
  by (simp add: ChatMessage_get_queryset_def py_int_def int_latin1_simps in_int64_def
      caller_first_def db_tied_def msg_a_def msg_b_def)

text \<open>
  The amended C7 at users 1 and 2 with distinct timestamps: "hi" from 1 to 2, then
  "hello" from 2 to 1, for both.
\<close>

theorem thread_symmetric_witness:
  "ChatMessage_get_queryset int_latin1 (caller_first 1) 1 (Some ''2'') db_chat =
     Inr [msg_hi, msg_hello] \<and>
   ChatMessage_get_queryset int_latin1 (caller_first 2) 2 (Some ''1'') db_chat =
     Inr [msg_hi, msg_hello]"
proof -
  have a: "int_latin1 ''1'' = Some 1" and b: "int_latin1 ''2'' = Some 2"
    by (simp_all add: int_latin1_simps)
  have r: "in_int64 1" "in_int64 2" by (simp_all add: in_int64_def)
  have c: "ChatMessage_get_queryset int_latin1 (caller_first 1) 1 (Some ''2'') db_chat =
             Inr [msg_hi, msg_hello]"
    by (simp add: ChatMessage_get_queryset_def py_int_def b in_int64_def caller_first_def
        db_chat_def msg_hi_def msg_yo_def msg_hello_def)
  from thread_symmetric [where int_str = int_latin1 and fa = "''1''" and a = 1
      and fb = "''2''" and b = 2 and tie_a = "caller_first 1" and tie_b = "caller_first 2"
      and d = db_chat, OF a b r]
  obtain xs ys where
    x: "ChatMessage_get_queryset int_latin1 (caller_first 1) 1 (Some ''2'') db_chat = Inr xs"
    and y: "ChatMessage_get_queryset int_latin1 (caller_first 2) 2 (Some ''1'') db_chat = Inr ys"
    and e: "distinct (map msg_timestamp xs) \<or> caller_first 1 = caller_first 2 \<longrightarrow> ys = xs"
    by blast
  from x c have xs: "xs = [msg_hi, msg_hello]" by simp
  then have "distinct (map msg_timestamp xs)" by (simp add: msg_hi_def msg_hello_def)
  with e xs have "ys = [msg_hi, msg_hello]" by simp
  with y c show ?thesis by simp
qed

text \<open>
  C8: when \<open>friend_id\<close> is absent, or is a string that \<open>int\<close> does not read as an
  integer, the view returns the empty sequence and no error: the \<open>TypeError\<close> or
  \<open>ValueError\<close> of \<open>int\<close> is caught. This holds for whatever strings \<open>int\<close> reads.
\<close>

theorem thread_bad_counterpart_empty:
  assumes "friend_id = None \<or> (\<exists>s. friend_id = Some s \<and> int_str s = None)"
  shows "ChatMessage_get_queryset int_str tie u friend_id d = Inr []"
  using assms by (auto simp: ChatMessage_get_queryset_def py_int_def)

text \<open>C8 for an absent counterpart and for four strings that are not integers.\<close>

theorem thread_bad_counterpart_empty_witness:
  "ChatMessage_get_queryset int_latin1 by_id 1 None db_chat = Inr [] \<and>
   ChatMessage_get_queryset int_latin1 by_id 1 (Some ''abc'') db_chat = Inr [] \<and>
   ChatMessage_get_queryset int_latin1 by_id 1 (Some ''1 2'') db_chat = Inr [] \<and>
   ChatMessage_get_queryset int_latin1 by_id 1 (Some []) db_chat = Inr [] \<and>
   ChatMessage_get_queryset int_latin1 by_id 1 (Some [CHR 0x1C, CHR ''2'']) db_chat = Inr []"
proof -
  have "int_latin1 ''abc'' = None" "int_latin1 ''1 2'' = None" "int_latin1 [] = None"
    "int_latin1 [CHR 0x1C, CHR ''2''] = None"
    by (simp_all add: int_latin1_simps)
  then show ?thesis
    using thread_bad_counterpart_empty [of None int_latin1 by_id 1 db_chat]
      thread_bad_counterpart_empty [of "Some ''abc''" int_latin1 by_id 1 db_chat]
      thread_bad_counterpart_empty [of "Some ''1 2''" int_latin1 by_id 1 db_chat]
      thread_bad_counterpart_empty [of "Some []" int_latin1 by_id 1 db_chat]
      thread_bad_counterpart_empty [of "Some [CHR 0x1C, CHR ''2'']" int_latin1 by_id 1 db_chat]
    by simp
qed

section \<open>Marking a notification as read\<close>

lemma update_same_row:
  assumes "\<And>x. x \<in> set rows \<Longrightarrow> k x = k y \<Longrightarrow> x = y"
  shows "map (\<lambda>x. if k x = k y then y else x) rows = rows"
  using assms by (induction rows) auto

text \<open>
  C9: for a notification with key \<open>pk\<close> owned by the acting user, marking it read
  twice answers 200 both times; after the first call the notification is read, and the
  second call leaves the database exactly as the first left it. Marking a notification
  that is already read changes nothing (primary keys distinct) and answers 200.
\<close>

theorem mark_read_idempotent:
  assumes look: "get_object_or_404 (\<lambda>n. n_id n = pk \<and> n_user n = u) (notifications d) = Inr n"
    and first: "mark_read_post pk u d = (r1, d1)"
    and second: "mark_read_post pk u d1 = (r2, d2)"
  shows "r1 = Response 200 [(''detail'', ''Notification marked as read.'')] \<and>
         r2 = Response 200 [(''detail'', ''Notification marked as read.'')] \<and>
         get_object_or_404 (\<lambda>n. n_id n = pk \<and> n_user n = u) (notifications d1) =
           Inr (n\<lparr>is_read := True\<rparr>) \<and>
         d2 = d1 \<and>
         (is_read n \<and> distinct (map n_id (notifications d)) \<longrightarrow> d1 = d)"
proof -
  let ?n' = "n\<lparr>is_read := True\<rparr>"
  let ?upd = "\<lambda>x. if n_id x = pk then ?n' else x"
  from look have f: "find (\<lambda>n. n_id n = pk \<and> n_user n = u) (notifications d) = Some n"
    by (auto simp: get_object_or_404_def split: option.splits)
  then have n: "n \<in> set (notifications d)" "n_id n = pk" "n_user n = u"
    by (auto simp: find_Some_iff)
  have r1: "r1 = Response 200 [(''detail'', ''Notification marked as read.'')]"
    and d1: "d1 = d\<lparr>notifications := map ?upd (notifications d)\<rparr>"
    using first look n by (simp_all add: mark_read_post_def save_notification_def)
  have f1: "find (\<lambda>n. n_id n = pk \<and> n_user n = u) (notifications d1) = Some ?n'"
    using find_after_update [OF f, of ?n'] n d1 by simp
  then have look1: "get_object_or_404 (\<lambda>n. n_id n = pk \<and> n_user n = u) (notifications d1) = Inr ?n'"
    by (simp add: get_object_or_404_def)
  have idem: "map ?upd (map ?upd (notifications d)) = map ?upd (notifications d)"
    using n by (induction "notifications d") auto
  have "save_notification ?n' d1 = d1"
    using idem n d1 by (simp add: save_notification_def)
  moreover have "mark_read_post pk u d1 =
      (Response 200 [(''detail'', ''Notification marked as read.'')], save_notification ?n' d1)"
    using look1 by (simp add: mark_read_post_def)
  ultimately have r2: "r2 = Response 200 [(''detail'', ''Notification marked as read.'')]"
    and d2: "d2 = d1"
    using second by simp_all
  have noop: "is_read n \<and> distinct (map n_id (notifications d)) \<longrightarrow> d1 = d"
  proof
    assume a: "is_read n \<and> distinct (map n_id (notifications d))"
    then have same: "?n' = n" by simp
    have "\<And>x. x \<in> set (notifications d) \<Longrightarrow> n_id x = n_id n \<Longrightarrow> x = n"
      using a n(1) distinct_key_eq by metis
    from update_same_row [of "notifications d" n_id n, OF this]
    have "map ?upd (notifications d) = notifications d" unfolding same n(2) .
    with d1 show "d1 = d" by simp
  qed
  show ?thesis using r1 r2 look1 d2 noop by simp
qed

text \<open>C9 at notification 1 of user 2.\<close>

theorem mark_read_idempotent_witness:
  "mark_read_post 1 2 db_chat =
     (Response 200 [(''detail'', ''Notification marked as read.'')], db_read) \<and>
   mark_read_post 1 2 db_read =
     (Response 200 [(''detail'', ''Notification marked as read.'')], db_read) \<and>
   get_object_or_404 (\<lambda>n. n_id n = 1 \<and> n_user n = 2) (notifications db_read) =
     Inr (note_for_2\<lparr>is_read := True\<rparr>)"
proof -
  have look: "get_object_or_404 (\<lambda>n. n_id n = 1 \<and> n_user n = 2) (notifications db_chat) =
                Inr note_for_2"
    by (simp add: get_object_or_404_def db_chat_def note_for_2_def)
  have first: "mark_read_post 1 2 db_chat =
                 (Response 200 [(''detail'', ''Notification marked as read.'')], db_read)"
    by (simp add: mark_read_post_def get_object_or_404_def save_notification_def
        db_chat_def db_read_def note_for_2_def note_for_3_def)
  have second: "mark_read_post 1 2 db_read =
                  (fst (mark_read_post 1 2 db_read), snd (mark_read_post 1 2 db_read))"
    by simp
  from mark_read_idempotent [OF look first second]
  have "mark_read_post 1 2 db_read =
          (Response 200 [(''detail'', ''Notification marked as read.'')], db_read)"
    and "get_object_or_404 (\<lambda>n. n_id n = 1 \<and> n_user n = 2) (notifications db_read) =
           Inr (note_for_2\<lparr>is_read := True\<rparr>)"
    by (simp_all add: prod_eq_iff)
  with first show ?thesis by simp
qed

section \<open>Reads are restricted to the acting user\<close>

text \<open>
  C10: every friend request listed for the acting user is a request of the table whose
  receiver is that user; every notification listed is one owned by that user; every
  message of a thread the view returns is a message of the table whose sender or
  receiver is that user, whatever \<open>int\<close> reads and however the database orders ties.
\<close>

theorem reads_scoped:
  "(\<forall>r \<in> set (FriendRequest_get_queryset u d).
      r \<in> set (friend_requests d) \<and> fr_receiver r = u) \<and>
   (\<forall>n \<in> set (Notification_get_queryset u d).
      n \<in> set (notifications d) \<and> n_user n = u) \<and>
   (\<forall>ms. ChatMessage_get_queryset int_str tie u friend_id d = Inr ms \<longrightarrow>
      (\<forall>m \<in> set ms. m \<in> set (messages d) \<and> (msg_sender m = u \<or> msg_receiver m = u)))"
proof -
  have "\<forall>ms. ChatMessage_get_queryset int_str tie u friend_id d = Inr ms \<longrightarrow>
      (\<forall>m \<in> set ms. m \<in> set (messages d) \<and> (msg_sender m = u \<or> msg_receiver m = u))"
  proof (cases "py_int int_str friend_id")
    case (Inl e)
    then show ?thesis by (cases e) (auto simp: ChatMessage_get_queryset_def)
  next
    case (Inr fid)
    then show ?thesis by (auto simp: ChatMessage_get_queryset_def split: if_splits)
  qed
  then show ?thesis
    by (simp add: FriendRequest_get_queryset_def Notification_get_queryset_def)
qed

text \<open>
  C10 on a database with a request and a notification addressed to user 3 and a message
  from user 3 to user 2: none of them is in what user 2, or user 1 for the thread, reads.
\<close>

theorem reads_scoped_witness:
  "FriendRequest_get_queryset 2 db_chat = [req_pending] \<and>
   Notification_get_queryset 2 db_chat = [note_for_2] \<and>
   ChatMessage_get_queryset int_latin1 by_id 1 (Some ''2'') db_chat = Inr [msg_hi, msg_hello] \<and>
   req_to_3 \<notin> set (FriendRequest_get_queryset 2 db_chat) \<and>
   note_for_3 \<notin> set (Notification_get_queryset 2 db_chat) \<and>
   msg_yo \<notin> set [msg_hi, msg_hello]"
proof -
  have a: "FriendRequest_get_queryset 2 db_chat = [req_pending]"
    by (simp add: FriendRequest_get_queryset_def db_chat_def req_pending_def req_to_3_def)
  have b: "Notification_get_queryset 2 db_chat = [note_for_2]"
    by (simp add: Notification_get_queryset_def db_chat_def note_for_2_def note_for_3_def)
  have c: "ChatMessage_get_queryset int_latin1 by_id 1 (Some ''2'') db_chat =
             Inr [msg_hi, msg_hello]"
    by (simp add: ChatMessage_get_queryset_def py_int_def int_latin1_simps in_int64_def
        by_id_def db_chat_def msg_hi_def msg_yo_def msg_hello_def)
  have o: "fr_receiver req_to_3 \<noteq> 2" "n_user note_for_3 \<noteq> 2"
    "msg_sender msg_yo \<noteq> 1 \<and> msg_receiver msg_yo \<noteq> 1"
    by (simp_all add: req_to_3_def note_for_3_def msg_yo_def)
  from reads_scoped [of 2 db_chat] o(1,2)
  have d: "req_to_3 \<notin> set (FriendRequest_get_queryset 2 db_chat)"
    "note_for_3 \<notin> set (Notification_get_queryset 2 db_chat)"
    by blast+
  from reads_scoped [of 1 db_chat int_latin1 by_id "Some ''2''"] c o(3)
  have e: "msg_yo \<notin> set [msg_hi, msg_hello]"
    by blast
  show ?thesis using a b c d e by simp
qed

section \<open>Sending a message\<close>

text \<open>
  C6: a message whose receiver is the sender, or whose body is empty, is refused with
  \<open>InvalidTarget\<close> and the database is left as it was, so no message is created. Any
  other message is stored with the acting user as sender.
\<close>

theorem send_invalid_target:
  "(msg_receiver data = u \<or> msg_body data = [] \<longrightarrow>
      ChatMessage_create u nid now data d = (Raised InvalidTarget, d)) \<and>
   (msg_receiver data \<noteq> u \<and> msg_body data \<noteq> [] \<longrightarrow>
      fst (ChatMessage_create u nid now data d) = Response 201 [] \<and>
      messages (snd (ChatMessage_create u nid now data d)) =
        messages d @ [data\<lparr>msg_sender := u\<rparr>])"
  by (auto simp: ChatMessage_create_def MessageSerializer_is_valid_def
      ChatMessage_perform_create_def MessageSerializer_save_def notify_def)

text \<open>
  C6 at user 1 sending "x" to user 1 and an empty body to user 2, both refused, and "hi"
  to user 2, stored.
\<close>

theorem send_invalid_target_witness:
  "ChatMessage_create 1 7 20 msg_self db_empty = (Raised InvalidTarget, db_empty) \<and>
   ChatMessage_create 1 7 20 msg_blank db_empty = (Raised InvalidTarget, db_empty) \<and>
   messages db_empty = [] \<and>
   messages (snd (ChatMessage_create 1 7 20 msg_hi db_empty)) = [msg_hi]"
proof -
  have a: "msg_receiver msg_self = 1 \<or> msg_body msg_self = []"
    by (simp add: msg_self_def)
  have b: "msg_receiver msg_blank = 1 \<or> msg_body msg_blank = []"
    by (simp add: msg_blank_def)
  have c: "msg_receiver msg_hi \<noteq> 1 \<and> msg_body msg_hi \<noteq> []"
    by (simp add: msg_hi_def)
  have e: "msg_hi\<lparr>msg_sender := 1\<rparr> = msg_hi" "messages db_empty = []"
    by (simp_all add: msg_hi_def db_empty_def)
  show ?thesis
    using send_invalid_target [of msg_self 1 7 20 db_empty] a
      send_invalid_target [of msg_blank 1 7 20 db_empty] b
      send_invalid_target [of msg_hi 1 7 20 db_empty] c e
    by simp
qed

end
